theory Spec2Isabelle
  imports Main "HOL-Library.Word"
begin

section \<open>Versionless models of TRef and TRefArray (uproot/models/TRef.py)\<close>

text \<open>
  The module decodes two record types, \<open>TRef\<close> (the spec's ScalarRef) and
  \<open>TRefArray\<close> (the spec's ArrayRef), from a byte chunk through a cursor, and builds
  their strided and Awkward schema descriptors.  The cursor, the chunk, the schema
  helpers of \<open>uproot._util\<close> and the Forth generator live in other modules of the
  repository; what the decoders and builders need of them is modelled below, each such
  definition marked as modelled from the spec.
\<close>

subsection \<open>Errors\<close>

text \<open>
  The spec's error taxonomy.  \<open>UnsupportedSerializationMode\<close> is the source's
  \<open>NotImplementedError\<close> ("memberwise serialization of ..."), \<open>TruncatedInput\<close> is the
  failure of a bounds-checked read, and \<open>CorruptRecord\<close> is the spec's error for a
  structurally invalid value.  No statement of TRef.py raises the last one.
\<close>

datatype error = UnsupportedSerializationMode | TruncatedInput | CorruptRecord

subsection \<open>Bytes, chunks and big-endian integers\<close>

type_synonym byte = "8 word"

type_synonym chunk = "byte list"

text \<open>The unsigned big-endian value of a byte string (Python's unbounded int).\<close>

definition be_uint :: "byte list \<Rightarrow> int" where
  "be_uint bs = foldl (\<lambda>acc b. 256 * acc + uint b) 0 bs"

text \<open>The two's complement reading of four big-endian bytes (struct \<open>>i\<close>, dtype \<open>>i4\<close>).\<close>

definition be_sint32 :: "byte list \<Rightarrow> int" where
  "be_sint32 bs = (let u = be_uint bs in if 2 ^ 31 \<le> u then u - 2 ^ 32 else u)"

subsection \<open>Struct formats\<close>

text \<open>
  \<open>struct.Struct(">xxIxxxxxx")\<close> and \<open>struct.Struct(">i")\<close>: with the \<open>>\<close> prefix the
  items are packed big-endian without alignment; \<open>x\<close> is one pad byte that yields no
  value, \<open>I\<close> an unsigned and \<open>i\<close> a signed 4-byte integer.
\<close>

datatype fmt_item = Pad | UInt4 | SInt4

type_synonym struct_format = "fmt_item list"

fun item_size :: "fmt_item \<Rightarrow> int" where
  "item_size Pad = 1"
| "item_size UInt4 = 4"
| "item_size SInt4 = 4"

definition calcsize :: "struct_format \<Rightarrow> int" where
  "calcsize fmt = sum_list (map item_size fmt)"

fun unpack :: "struct_format \<Rightarrow> byte list \<Rightarrow> int list" where
  "unpack [] bs = []"
| "unpack (Pad # fmt) bs = unpack fmt (drop 1 bs)"
| "unpack (UInt4 # fmt) bs = be_uint (take 4 bs) # unpack fmt (drop 4 bs)"
| "unpack (SInt4 # fmt) bs = be_sint32 (take 4 bs) # unpack fmt (drop 4 bs)"

definition tref_format1 :: struct_format where
  "tref_format1 = [Pad, Pad, UInt4, Pad, Pad, Pad, Pad, Pad, Pad]"

definition trefarray_format1 :: struct_format where
  "trefarray_format1 = [SInt4]"

subsection \<open>Numpy dtypes\<close>

datatype byteorder = BigEndian | NativeEndian

datatype kind = UnsignedInt | SignedInt

record dtype =
  order :: byteorder
  dkind :: kind
  itemsize :: int

text \<open>\<open>numpy.dtype(">u2")\<close>, \<open>">u4"\<close>, \<open>">i4"\<close> and the native \<open>"u2"\<close>, \<open>"u4"\<close>, \<open>"i4"\<close>.\<close>

definition dtype_be_u2 :: dtype where
  "dtype_be_u2 = \<lparr>order = BigEndian, dkind = UnsignedInt, itemsize = 2\<rparr>"

definition dtype_be_u4 :: dtype where
  "dtype_be_u4 = \<lparr>order = BigEndian, dkind = UnsignedInt, itemsize = 4\<rparr>"

definition dtype_u2 :: dtype where
  "dtype_u2 = \<lparr>order = NativeEndian, dkind = UnsignedInt, itemsize = 2\<rparr>"

definition dtype_u4 :: dtype where
  "dtype_u4 = \<lparr>order = NativeEndian, dkind = UnsignedInt, itemsize = 4\<rparr>"

definition dtype_i4 :: dtype where
  "dtype_i4 = \<lparr>order = NativeEndian, dkind = SignedInt, itemsize = 4\<rparr>"

definition trefarray_dtype :: dtype where
  "trefarray_dtype = \<lparr>order = BigEndian, dkind = SignedInt, itemsize = 4\<rparr>"

text \<open>
  \<open>numpy.frombuffer(buf, dtype=">i4")\<close> on a buffer whose length is a multiple of 4:
  one signed value per group of four bytes.
\<close>

definition frombuffer_i4 :: "byte list \<Rightarrow> int list" where
  "frombuffer_i4 bs =
     map (\<lambda>k. be_sint32 (take 4 (drop (4 * k) bs))) [0 ..< length bs div 4]"

subsection \<open>The byte reader\<close>

text \<open>
  The cursor is the reader's offset into the chunk.  It is an \<open>int\<close>: \<open>skip\<close> adds to it
  without a check, and an array read of a negative count moves it backwards.
\<close>

record cursor =
  index :: int

text \<open>
  Modelled from the spec: \<open>Chunk.get\<close>, the bounds check behind every read of the
  ByteReader ("sequential, offset-tracked, bounds-checked primitive reads").  The chunk
  starts at offset 0.  A range that leaves the chunk is the spec's \<open>TruncatedInput\<close>
  ("fewer bytes available than the layout requires"); a range inside it yields the
  bytes from \<open>start\<close> up to \<open>stop\<close>, none when \<open>stop \<le> start\<close>.
\<close>

definition chunk_get :: "chunk \<Rightarrow> int \<Rightarrow> int \<Rightarrow> error + byte list" where
  "chunk_get chunk start stop =
     (if 0 \<le> start \<and> stop \<le> int (length chunk)
      then Inr (take (nat (stop - start)) (drop (nat start) chunk))
      else Inl TruncatedInput)"

text \<open>Modelled from the spec: \<open>Cursor.skip\<close>, the fixed-count skip ("skip(n)").\<close>

definition cursor_skip :: "int \<Rightarrow> cursor \<Rightarrow> cursor" where
  "cursor_skip n c = c\<lparr>index := index c + n\<rparr>"

text \<open>
  Modelled from the spec: \<open>Cursor.field\<close>, the fixed-width read through a format
  descriptor ("readFixed(formatSpec)"): it takes the format's size in bytes at the
  cursor, advances the cursor past them and returns the first unpacked value.
\<close>

definition cursor_field :: "chunk \<Rightarrow> struct_format \<Rightarrow> cursor \<Rightarrow> (error + int) \<times> cursor" where
  "cursor_field chunk fmt c =
     (let start = index c;
          stop = start + calcsize fmt;
          c' = c\<lparr>index := stop\<rparr>
      in case chunk_get chunk start stop of
           Inl e \<Rightarrow> (Inl e, c')
         | Inr bs \<Rightarrow> (Inr (hd (unpack fmt bs)), c'))"

text \<open>
  Modelled from the spec: \<open>Cursor.string\<close>, the length-prefixed string read
  ("a short length byte, or an escape value triggering a wider length field, followed by
  that many raw bytes").  The spec leaves the escape value and the width of the wide
  field to the primitive; the container format's are 255 and a 4-byte big-endian
  unsigned length, the \<open>"length_bytes": "1-5"\<close> of the schema in
  \<open>Model_TRefArray.awkward_form\<close>.  The name is kept as its raw bytes.
\<close>

definition cursor_string :: "chunk \<Rightarrow> cursor \<Rightarrow> (error + byte list) \<times> cursor" where
  "cursor_string chunk c =
     (let start = index c; stop = start + 1
      in case chunk_get chunk start stop of
           Inl e \<Rightarrow> (Inl e, c)
         | Inr lb \<Rightarrow>
             if uint (hd lb) = 255
             then (case chunk_get chunk stop (stop + 4) of
                     Inl e \<Rightarrow> (Inl e, c)
                   | Inr ld \<Rightarrow>
                       (let start' = stop + 4;
                            stop' = start' + be_uint ld;
                            c' = c\<lparr>index := stop'\<rparr>
                        in case chunk_get chunk start' stop' of
                             Inl e \<Rightarrow> (Inl e, c')
                           | Inr bs \<Rightarrow> (Inr bs, c')))
             else (let start' = stop;
                       stop' = start' + uint (hd lb);
                       c' = c\<lparr>index := stop'\<rparr>
                   in case chunk_get chunk start' stop' of
                        Inl e \<Rightarrow> (Inl e, c')
                      | Inr bs \<Rightarrow> (Inr bs, c')))"

text \<open>
  Modelled from the spec: \<open>Cursor.array\<close>, the raw fixed-type array read
  ("readFixedArray(count, elementType)"): \<open>count\<close> items of the dtype's size at the
  cursor, the cursor moved by \<open>count * itemsize\<close>.  The count is used as it comes.
  The module reads arrays of the dtype \<open>>i4\<close> only, and the items are decoded as such.
\<close>

definition cursor_array :: "chunk \<Rightarrow> int \<Rightarrow> dtype \<Rightarrow> cursor \<Rightarrow> (error + int list) \<times> cursor" where
  "cursor_array chunk count dt c =
     (let start = index c;
          stop = start + count * itemsize dt;
          c' = c\<lparr>index := stop\<rparr>
      in case chunk_get chunk start stop of
           Inl e \<Rightarrow> (Inl e, c')
         | Inr bs \<Rightarrow> (Inr (frombuffer_i4 bs), c'))"

subsection \<open>Model_TRef\<close>

record tref =
  ref :: int

text \<open>
  \<open>Model_TRef.read_members\<close>: the memberwise check comes first, then one field read
  with \<open>_tref_format1\<close>.  The result pairs the outcome with the cursor as the call leaves
  it, also when it raises.  The text of the exception is not modelled.
\<close>

definition Model_TRef_read_members :: "bool \<Rightarrow> chunk \<Rightarrow> cursor \<Rightarrow> (error + tref) \<times> cursor" where
  "Model_TRef_read_members is_memberwise chunk c =
     (if is_memberwise then (Inl UnsupportedSerializationMode, c)
      else case cursor_field chunk tref_format1 c of
             (Inl e, c') \<Rightarrow> (Inl e, c')
           | (Inr v, c') \<Rightarrow> (Inr \<lparr>ref = v\<rparr>, c'))"

text \<open>
  \<open>Model_TRef.strided_interpretation\<close>: the member list handed to
  \<open>AsStridedObjects(cls, members, original=original)\<close>.  The arguments \<open>header\<close> and
  \<open>tobject_header\<close> are not looked at.
\<close>

type_synonym cls = string

record 'o strided_objects =
  so_model :: cls
  so_members :: "(string \<times> dtype) list"
  so_original :: "'o option"

definition Model_TRef_strided_interpretation ::
    "cls \<Rightarrow> bool \<Rightarrow> bool \<Rightarrow> 'o option \<Rightarrow> 'o strided_objects" where
  "Model_TRef_strided_interpretation c header tobject_header original =
     (let members = [];
          members = members @ [(''@pidf'', dtype_be_u2)];
          members = members @ [(''ref'', dtype_be_u4)];
          members = members @ [(''@other1'', dtype_be_u2)];
          members = members @ [(''@other2'', dtype_be_u4)]
      in \<lparr>so_model = c, so_members = members, so_original = original\<rparr>)"

text \<open>The byte offset of each member of a packed field list.\<close>

fun member_offsets :: "int \<Rightarrow> (string \<times> dtype) list \<Rightarrow> (string \<times> int) list" where
  "member_offsets off [] = []"
| "member_offsets off ((n, dt) # ms) = (n, off) # member_offsets (off + itemsize dt) ms"

subsection \<open>Awkward forms\<close>

text \<open>
  The schema nodes the builders construct: \<open>NumpyForm\<close> (a scalar of a kind and item
  size), \<open>ListOffsetForm\<close> (a list with an index format and a content node) and
  \<open>RecordForm\<close> (named fields in insertion order).  Each carries its parameters and an
  optional form key.
\<close>

datatype pvalue = PStr string | PBool bool | PDict "(string \<times> pvalue) list"

type_synonym parameters = "(string \<times> pvalue) list"

datatype form =
    NumpyForm kind int parameters "string option"
  | ListOffsetForm string form parameters "string option"
  | RecordForm "(string \<times> form) list" parameters "string option"

text \<open>Removing the form keys, the only bytecode metadata a form carries.\<close>

primrec strip_form_keys :: "form \<Rightarrow> form" where
  "strip_form_keys (NumpyForm k n ps fk) = NumpyForm k n ps None"
| "strip_form_keys (ListOffsetForm ifmt content ps fk) =
     ListOffsetForm ifmt (strip_form_keys content) ps None"
| "strip_form_keys (RecordForm contents ps fk) =
     RecordForm (map (map_prod id strip_form_keys) contents) ps None"

text \<open>The form keys of a schema, the node's own first, then its children's in order.\<close>

primrec form_keys :: "form \<Rightarrow> string list" where
  "form_keys (NumpyForm k n ps fk) = (case fk of None \<Rightarrow> [] | Some s \<Rightarrow> [s])"
| "form_keys (ListOffsetForm ifmt content ps fk) =
     (case fk of None \<Rightarrow> [] | Some s \<Rightarrow> [s]) @ form_keys content"
| "form_keys (RecordForm contents ps fk) =
     (case fk of None \<Rightarrow> [] | Some s \<Rightarrow> [s]) @ concat (map snd (map (map_prod id form_keys) contents))"

text \<open>The field names of a record form, in order.\<close>

fun field_names :: "form \<Rightarrow> string list" where
  "field_names (RecordForm contents ps fk) = map fst contents"
| "field_names f = []"

subsection \<open>Node keys\<close>

text \<open>Python's \<open>f"node{n}"\<close>: the decimal digits of an integer after \<open>node\<close>.\<close>

definition digit_char :: "nat \<Rightarrow> char" where
  "digit_char d = ''0123456789'' ! d"

function str_nat :: "nat \<Rightarrow> string" where
  "str_nat n = (if n < 10 then [digit_char n] else str_nat (n div 10) @ [digit_char (n mod 10)])"
  by pat_completeness auto
termination
  by (relation "measure id") auto

declare str_nat.simps [simp del]

definition str_int :: "int \<Rightarrow> string" where
  "str_int i = (if i < 0 then CHR ''-'' # str_nat (nat (- i)) else str_nat (nat i))"

definition node :: "int \<Rightarrow> string" where
  "node n = ''node'' @ str_int n"

text \<open>Reading a decimal back, to tell the node keys of different numbers apart.\<close>

definition digit_value :: "char \<Rightarrow> nat" where
  "digit_value ch = of_char ch - 48"

definition nat_of_str :: "string \<Rightarrow> nat" where
  "nat_of_str s = foldl (\<lambda>acc ch. 10 * acc + digit_value ch) 0 s"

subsection \<open>The build context and the Forth generator\<close>

datatype hook = Pre cls | Post cls

text \<open>
  Modelled from the spec: the Forth generator held under \<open>context["forth"]\<close>, the
  bytecode part of the spec's BuildContext: "a monotonically increasing node-key
  counter", the node-key ranges reserved per record class, the extraction-program
  fragments (\<open>forth_code\<close>, a dictionary from the class to its fragment, \<open>None\<close> until
  one is generated), the "pre" and "post" hooks in the order they were registered, and
  the number of schema traversals done.
\<close>

record forth_obj =
  last_key :: int
  forth_keys :: "(cls \<times> int \<times> int) list"
  forth_code :: "(cls \<times> string option) list"
  hooks :: "hook list"
  traversals :: nat

text \<open>Assignment to a dictionary entry, on an association list in insertion order.\<close>

fun dict_set :: "'k \<Rightarrow> 'v \<Rightarrow> ('k \<times> 'v) list \<Rightarrow> ('k \<times> 'v) list" where
  "dict_set k v [] = [(k, v)]"
| "dict_set k v ((k', v') # kvs) =
     (if k' = k then (k, v) # kvs else (k', v') # dict_set k v kvs)"

text \<open>Modelled from the spec: \<open>get_last_key\<close>, the current value of the node-key counter.\<close>

definition get_last_key :: "forth_obj \<Rightarrow> int" where
  "get_last_key f = last_key f"

text \<open>
  Modelled from the spec: \<open>init_keys(cls, start, stop)\<close>, which reserves the contiguous
  block of node keys \<open>start..stop\<close> for the record class ("allocate a contiguous block
  of node keys from the BuildContext counter") and leaves the counter at \<open>stop\<close>.
\<close>

definition init_keys :: "cls \<Rightarrow> int \<Rightarrow> int \<Rightarrow> forth_obj \<Rightarrow> forth_obj" where
  "init_keys c start stop f =
     f\<lparr>forth_keys := dict_set c (start, stop) (forth_keys f), last_key := stop\<rparr>"

text \<open>
  Modelled from the spec: \<open>register_pre\<close> and \<open>register_post\<close>, the "pre" and "post"
  hooks emitted before and after the field subtrees are built.
\<close>

definition register_pre :: "cls \<Rightarrow> forth_obj \<Rightarrow> forth_obj" where
  "register_pre c f = f\<lparr>hooks := hooks f @ [Pre c]\<rparr>"

definition register_post :: "cls \<Rightarrow> forth_obj \<Rightarrow> forth_obj" where
  "register_post c f = f\<lparr>hooks := hooks f @ [Post c]\<rparr>"

text \<open>
  Modelled from the spec: \<open>traverse_aform\<close>, the "traverse" hook that finalises a
  pending upstream schema.  It works on the generator alone.
\<close>

definition traverse_aform :: "forth_obj \<Rightarrow> forth_obj" where
  "traverse_aform f = f\<lparr>traversals := Suc (traversals f)\<rparr>"

text \<open>
  The \<open>context\<close> dictionary.  The entries \<open>index_format\<close> and \<open>tobject_header\<close> are
  put there by the interpretation that starts a build and are always present; \<open>forth\<close>
  and \<open>prev-key\<close> are present or absent, which is all the source asks of them.
\<close>

record context_dict =
  index_format :: string
  tobject_header :: bool
  forth :: "forth_obj option"
  prev_key :: "string option"

text \<open>
  Modelled from the spec: \<open>uproot._util.awkward_form\<close> on a numpy dtype, the native
  \<open>Scalar(type)\<close> node: pure, without a form key.
\<close>

definition awkward_form :: "dtype \<Rightarrow> context_dict \<Rightarrow> form" where
  "awkward_form dt context = NumpyForm (dkind dt) (itemsize dt) [] None"

text \<open>
  Modelled from the spec: \<open>uproot._util.awkward_form_forth\<close> on a numpy dtype, the
  same \<open>Scalar(type)\<close> node, keyed by the context's "previous key" pointer.
\<close>

definition awkward_form_forth :: "dtype \<Rightarrow> context_dict \<Rightarrow> form" where
  "awkward_form_forth dt context = NumpyForm (dkind dt) (itemsize dt) [] (prev_key context)"

text \<open>
  Modelled from the spec: \<open>uproot.containers.AsString(header, typename).awkward_form\<close>,
  the native \<open>String\<close> node: a list of \<open>uint8\<close> characters tagged as a string, with the
  header flag and the 1 to 5 length bytes of the container's string convention.
\<close>

definition AsString_awkward_form :: "bool \<Rightarrow> context_dict \<Rightarrow> form" where
  "AsString_awkward_form header context =
     ListOffsetForm (index_format context)
       (NumpyForm UnsignedInt 1 [(''__array__'', PStr ''char'')] None)
       [(''__array__'', PStr ''string''),
        (''uproot'', PDict [(''as'', PStr ''string''), (''header'', PBool header),
                            (''length_bytes'', PStr ''1-5'')])]
       None"

text \<open>
  \<open>Model_TRef.awkward_form\<close>: the four members are added under the guard
  \<open>context["tobject_header"]\<close>.  The context is returned as the build leaves it.
\<close>

definition Model_TRef_awkward_form :: "cls \<Rightarrow> context_dict \<Rightarrow> form \<times> context_dict" where
  "Model_TRef_awkward_form c context =
     (let contents = [];
          contents =
            (if tobject_header context
             then (let contents = dict_set ''@pidf'' (awkward_form dtype_u2 context) contents;
                       contents = dict_set ''ref'' (awkward_form dtype_u4 context) contents;
                       contents = dict_set ''@other1'' (awkward_form dtype_u2 context) contents;
                       contents = dict_set ''@other2'' (awkward_form dtype_u4 context) contents
                   in contents)
             else contents)
      in (RecordForm contents [(''__record__'', PStr ''TRef'')] None, context))"

subsection \<open>Model_TRefArray\<close>

record trefarray =
  fName :: "byte list"
  fSize :: int
  data :: "int list"

text \<open>The properties \<open>refs\<close>, \<open>nbytes\<close> and \<open>name\<close>.\<close>

definition Model_TRefArray_refs :: "trefarray \<Rightarrow> int list" where
  "Model_TRefArray_refs a = data a"

definition Model_TRefArray_nbytes :: "trefarray \<Rightarrow> int" where
  "Model_TRefArray_nbytes a = int (length (data a)) * itemsize trefarray_dtype"

definition Model_TRefArray_name :: "trefarray \<Rightarrow> byte list" where
  "Model_TRefArray_name a = fName a"

text \<open>
  \<open>Model_TRefArray.read_members\<close>.  With a Forth generator in the context its schema
  is traversed first; then the memberwise check; then the reads: skip 10, the name, the
  size, skip 6, the array of \<open>fSize\<close> items.  The size goes to the array read as decoded.
\<close>

definition Model_TRefArray_read_members ::
    "context_dict \<Rightarrow> bool \<Rightarrow> chunk \<Rightarrow> cursor \<Rightarrow> (error + trefarray) \<times> cursor \<times> context_dict" where
  "Model_TRefArray_read_members context is_memberwise chunk c =
     (let context = (case forth context of
                       Some forth_obj \<Rightarrow> context\<lparr>forth := Some (traverse_aform forth_obj)\<rparr>
                     | None \<Rightarrow> context)
      in if is_memberwise then (Inl UnsupportedSerializationMode, c, context)
         else (let c = cursor_skip 10 c
               in case cursor_string chunk c of
                    (Inl e, c) \<Rightarrow> (Inl e, c, context)
                  | (Inr name, c) \<Rightarrow>
                      (case cursor_field chunk trefarray_format1 c of
                         (Inl e, c) \<Rightarrow> (Inl e, c, context)
                       | (Inr n, c) \<Rightarrow>
                           (let c = cursor_skip 6 c
                            in case cursor_array chunk n trefarray_dtype c of
                                 (Inl e, c) \<Rightarrow> (Inl e, c, context)
                               | (Inr d, c) \<Rightarrow>
                                   (Inr \<lparr>fName = name, fSize = n, data = d\<rparr>, c, context)))))"

text \<open>
  Indexing a one-dimensional numpy array with an integer: a negative index counts from
  the end, and an index out of range is an \<open>IndexError\<close>, here \<open>None\<close>.
\<close>

definition ndarray_getitem :: "int list \<Rightarrow> int \<Rightarrow> int option" where
  "ndarray_getitem xs i =
     (let n = int (length xs); j = (if i < 0 then i + n else i)
      in if 0 \<le> j \<and> j < n then Some (xs ! nat j) else None)"

text \<open>\<open>__getitem__\<close> and \<open>__len__\<close>: both go to \<open>_data\<close>.\<close>

definition Model_TRefArray_getitem :: "trefarray \<Rightarrow> int \<Rightarrow> int option" where
  "Model_TRefArray_getitem a i = ndarray_getitem (data a) i"

definition Model_TRefArray_len :: "trefarray \<Rightarrow> int" where
  "Model_TRefArray_len a = int (length (data a))"

text \<open>
  \<open>Model_TRefArray.awkward_form\<close>.  With \<open>"forth"\<close> in the context the bytecode branch
  runs: it takes the last key, reserves \<open>key + 1 .. key + 6\<close>, registers the pre hook,
  builds the three fields with their node keys, registers the post hook and deletes
  \<open>prev-key\<close> from the context.  Without it the native branch builds the same three
  fields from the helpers.
\<close>

definition Model_TRefArray_awkward_form :: "cls \<Rightarrow> context_dict \<Rightarrow> form \<times> context_dict" where
  "Model_TRefArray_awkward_form c context =
     (case forth context of
        Some forth_obj \<Rightarrow>
          (let forth_obj = forth_obj\<lparr>forth_code := dict_set c None (forth_code forth_obj)\<rparr>;
               key = get_last_key forth_obj;
               forth_obj = init_keys c (key + 1) (key + 6) forth_obj;
               forth_obj = register_pre c forth_obj;
               context = context\<lparr>forth := Some forth_obj\<rparr>;
               contents = [];
               contents = dict_set ''fName''
                 (ListOffsetForm (index_format context)
                    (NumpyForm UnsignedInt 1 [(''__array__'', PStr ''char'')]
                       (Some (node (key + 3))))
                    [(''__array__'', PStr ''string''),
                     (''uproot'', PDict [(''as'', PStr ''string''), (''header'', PBool False),
                                         (''length_bytes'', PStr ''1-5'')])]
                    (Some (node (key + 2)))) contents;
               context = context\<lparr>prev_key := Some (node (key + 4))\<rparr>;
               contents = dict_set ''fSize'' (awkward_form_forth dtype_i4 context) contents;
               context = context\<lparr>prev_key := Some (node (key + 6))\<rparr>;
               contents = dict_set ''refs''
                 (ListOffsetForm (index_format context) (awkward_form_forth dtype_i4 context) []
                    (Some (node (key + 5)))) contents;
               forth_obj = register_post c forth_obj;
               context = context\<lparr>forth := Some forth_obj\<rparr>;
               context = context\<lparr>prev_key := None\<rparr>
           in (RecordForm contents [(''__record__'', PStr ''TRefArray'')] (Some (node (key + 1))),
               context))
      | None \<Rightarrow>
          (let contents = [];
               contents = dict_set ''fName'' (AsString_awkward_form False context) contents;
               contents = dict_set ''fSize'' (awkward_form dtype_i4 context) contents;
               contents = dict_set ''refs''
                 (ListOffsetForm (index_format context) (awkward_form dtype_i4 context) [] None)
                 contents
           in (RecordForm contents [(''__record__'', PStr ''TRefArray'')] None, context)))"

subsection \<open>Example records\<close>

text \<open>
  A TRefArray record named \<open>ab\<close> with \<open>size = 3\<close> and the references 5, -2 and
  100000 (the spec's example), one with an empty name and \<open>size = 0\<close>, and one whose
  size field holds -1.  Each has ten header bytes, the name with its length byte, the
  size, six reserved bytes and the references.
\<close>

definition trefarray_example :: chunk where
  "trefarray_example =
     [0, 0, 0, 0, 0, 0, 0, 0, 0, 0,  2, 97, 98,  0, 0, 0, 3,  0, 0, 0, 0, 0, 0,
      0, 0, 0, 5,  255, 255, 255, 254,  0, 1, 134, 160]"

definition trefarray_empty_example :: chunk where
  "trefarray_empty_example =
     [0, 0, 0, 0, 0, 0, 0, 0, 0, 0,  0,  0, 0, 0, 0,  0, 0, 0, 0, 0, 0]"

definition trefarray_negative_example :: chunk where
  "trefarray_negative_example =
     [0, 0, 0, 0, 0, 0, 0, 0, 0, 0,  0,  255, 255, 255, 255,  0, 0, 0, 0, 0, 0]"

text \<open>A context without a Forth generator, as a native build or a plain read has it.\<close>

definition native_context :: context_dict where
  "native_context =
     \<lparr>index_format = ''i64'', tobject_header = True, forth = None, prev_key = None\<rparr>"

text \<open>A Forth generator that has issued no key yet.\<close>

definition forth_example :: forth_obj where
  "forth_example = \<lparr>last_key = 0, forth_keys = [], forth_code = [], hooks = [], traversals = 0\<rparr>"

section \<open>Properties\<close>

subsection \<open>Big-endian values and the reader\<close>

lemma be_uint_nonneg_aux:
  "0 \<le> acc \<Longrightarrow> 0 \<le> foldl (\<lambda>acc b. 256 * acc + uint (b::byte)) acc bs"
  by (induction bs arbitrary: acc) simp_all

lemma be_uint_nonneg: "0 \<le> be_uint bs"
  by (simp add: be_uint_def be_uint_nonneg_aux)

lemma be_uint_4:
  "be_uint [b0, b1, b2, b3] = ((uint b0 * 256 + uint b1) * 256 + uint b2) * 256 + uint b3"
  by (simp add: be_uint_def)

lemma be_uint_4_bound: "be_uint [b0, b1, b2, b3] < 2 ^ 32"
proof -
  have "uint b0 \<le> 255" "uint b1 \<le> 255" "uint b2 \<le> 255" "uint b3 \<le> 255"
    using uint_bounded [of b0] uint_bounded [of b1] uint_bounded [of b2] uint_bounded [of b3]
    by simp_all
  then show ?thesis unfolding be_uint_4 by simp
qed

lemma chunk_get_Inr:
  "chunk_get chunk start stop = Inr bs \<longleftrightarrow>
     0 \<le> start \<and> stop \<le> int (length chunk) \<and>
     bs = take (nat (stop - start)) (drop (nat start) chunk)"
  by (auto simp: chunk_get_def)

lemma chunk_get_Inl: "chunk_get chunk start stop = Inl e \<Longrightarrow> e = TruncatedInput"
  by (auto simp: chunk_get_def split: if_splits)

lemma chunk_get_length:
  "chunk_get chunk start stop = Inr bs \<Longrightarrow> start \<le> stop \<Longrightarrow> int (length bs) = stop - start"
  by (auto simp: chunk_get_Inr)

lemma frombuffer_i4_length: "length (frombuffer_i4 bs) = length bs div 4"
  by (simp add: frombuffer_i4_def)

lemma calcsize_tref_format1: "calcsize tref_format1 = 12"
  by (simp add: calcsize_def tref_format1_def)

lemma calcsize_trefarray_format1: "calcsize trefarray_format1 = 4"
  by (simp add: calcsize_def trefarray_format1_def)

lemma unpack_tref_format1: "unpack tref_format1 bs = [be_uint (take 4 (drop 2 bs))]"
  by (simp add: tref_format1_def numeral_2_eq_2)

subsection \<open>Decoding a TRef\<close>

text \<open>
  With twelve bytes available at the cursor the field read succeeds, returns the
  unsigned value of the four bytes at offset 2 and leaves the cursor twelve further.
\<close>

lemma cursor_field_tref_format1:
  assumes "0 \<le> index c" and "index c + 12 \<le> int (length chunk)"
  shows "cursor_field chunk tref_format1 c =
           (Inr (be_uint (take 4 (drop (nat (index c) + 2) chunk))), c\<lparr>index := index c + 12\<rparr>)"
proof -
  have "chunk_get chunk (index c) (index c + 12) = Inr (take 12 (drop (nat (index c)) chunk))"
    using assms by (simp add: chunk_get_def)
  moreover have "take 4 (drop 2 (take 12 (drop (nat (index c)) chunk)))
                   = take 4 (drop (nat (index c) + 2) chunk)"
    by (simp add: drop_take add.commute)
  ultimately show ?thesis
    by (simp add: cursor_field_def calcsize_tref_format1 Let_def unpack_tref_format1)
qed

text \<open>
  Claim C2.  A TRef record is any twelve bytes \<open>x0 x1 b0 b1 b2 b3 x6 ... x11\<close>, wherever
  they stand in the chunk (after \<open>pre\<close>, before \<open>post\<close>).  Decoded with
  \<open>memberwise = False\<close> from a cursor at its first byte, the record yields as \<open>ref\<close> the
  big-endian unsigned integer \<open>b0 b1 b2 b3\<close> found at offset 2, and the cursor has
  advanced by exactly 12, whatever the reserved bytes \<open>x0, x1\<close> and \<open>x6 ... x11\<close> hold.
\<close>

theorem Model_TRef_read_members_decodes:
  "Model_TRef_read_members False
     (pre @ [x0, x1, b0, b1, b2, b3, x6, x7, x8, x9, x10, x11] @ post)
     \<lparr>index = int (length pre)\<rparr>
   = (Inr \<lparr>ref = ((uint b0 * 256 + uint b1) * 256 + uint b2) * 256 + uint b3\<rparr>,
      \<lparr>index = int (length pre) + 12\<rparr>)"
proof -
  let ?chunk = "pre @ [x0, x1, b0, b1, b2, b3, x6, x7, x8, x9, x10, x11] @ post"
  let ?c = "\<lparr>index = int (length pre)\<rparr>"
  have "cursor_field ?chunk tref_format1 ?c =
          (Inr (be_uint (take 4 (drop (nat (index ?c) + 2) ?chunk))), ?c\<lparr>index := index ?c + 12\<rparr>)"
    by (rule cursor_field_tref_format1) simp_all
  moreover have "take 4 (drop (nat (index ?c) + 2) ?chunk) = [b0, b1, b2, b3]"
    by simp
  ultimately show ?thesis
    by (simp add: Model_TRef_read_members_def be_uint_4)
qed

text \<open>The same for any cursor with twelve bytes in front of it.\<close>

lemma Model_TRef_read_members_any_cursor:
  assumes "0 \<le> index c" and "index c + 12 \<le> int (length chunk)"
  shows "Model_TRef_read_members False chunk c =
           (Inr \<lparr>ref = be_uint (take 4 (drop (nat (index c) + 2) chunk))\<rparr>,
            c\<lparr>index := index c + 12\<rparr>)"
  using cursor_field_tref_format1 [OF assms] by (simp add: Model_TRef_read_members_def)

text \<open>
  The spec's example: the bytes \<open>00 00 00 00 00 01 00 00 00 00 00 00\<close> decode to the
  reference number 1 and move the cursor by 12.
\<close>

lemma Model_TRef_read_members_example:
  "Model_TRef_read_members False [0, 0, 0, 0, 0, 1, 0, 0, 0, 0, 0, 0] \<lparr>index = 0\<rparr>
   = (Inr \<lparr>ref = 1\<rparr>, \<lparr>index = 12\<rparr>)"
  using Model_TRef_read_members_any_cursor [of "\<lparr>index = 0\<rparr>" "[0, 0, 0, 0, 0, 1, 0, 0, 0, 0, 0, 0]"]
  by (simp add: be_uint_def)

subsection \<open>Decoding a TRefArray\<close>

text \<open>What a successful field or string read says about the cursor and the chunk.\<close>

lemma cursor_field_Inr:
  assumes "cursor_field chunk fmt c = (Inr v, c')"
  shows "0 \<le> index c" and "index c' = index c + calcsize fmt"
    and "index c' \<le> int (length chunk)"
    and "v = hd (unpack fmt (take (nat (calcsize fmt)) (drop (nat (index c)) chunk)))"
    and "c' = c\<lparr>index := index c + calcsize fmt\<rparr>"
  using assms
  by (auto simp: cursor_field_def Let_def chunk_get_def split: if_splits)

lemma cursor_field_trefarray_format1_Inr:
  assumes "cursor_field chunk trefarray_format1 c = (Inr v, c')"
  shows "0 \<le> index c" and "index c' = index c + 4" and "index c' \<le> int (length chunk)"
    and "v = be_sint32 (take 4 (drop (nat (index c)) chunk))"
  using cursor_field_Inr [OF assms]
  by (simp_all add: calcsize_trefarray_format1) (simp add: trefarray_format1_def)

lemma cursor_string_Inr:
  assumes "cursor_string chunk c = (Inr bs, c')"
  shows "0 \<le> index c"
    and "index c' - index c =
           (if uint (chunk ! nat (index c)) = 255 then 5 else 1) + int (length bs)"
    and "index c' \<le> int (length chunk)"
proof -
  let ?i = "index c"
  from assms obtain lb where lb: "chunk_get chunk ?i (?i + 1) = Inr lb"
    by (auto simp: cursor_string_def Let_def split: sum.splits)
  then have i0: "0 \<le> ?i" and i1: "?i + 1 \<le> int (length chunk)"
    and lb_eq: "lb = take 1 (drop (nat ?i) chunk)"
    by (simp_all add: chunk_get_Inr)
  have hd_lb: "hd lb = chunk ! nat ?i"
    using i0 i1 by (simp add: lb_eq hd_drop_conv_nth take_Suc)
  show "0 \<le> ?i" by (rule i0)
  show "index c' - ?i = (if uint (chunk ! nat ?i) = 255 then 5 else 1) + int (length bs)"
   and "index c' \<le> int (length chunk)"
  proof (atomize (full), cases "uint (hd lb) = 255")
    case True
    with assms lb obtain ld where ld: "chunk_get chunk (?i + 1) (?i + 1 + 4) = Inr ld"
      by (auto simp: cursor_string_def Let_def split: sum.splits)
    with assms lb True
    have body: "chunk_get chunk (?i + 1 + 4) (?i + 1 + 4 + be_uint ld) = Inr bs"
      and c': "c' = c\<lparr>index := ?i + 1 + 4 + be_uint ld\<rparr>"
      by (auto simp: cursor_string_def Let_def split: sum.splits)
    have "int (length bs) = be_uint ld"
      using chunk_get_length [OF body] be_uint_nonneg [of ld] by simp
    moreover have "index c' \<le> int (length chunk)"
      using body c' by (simp add: chunk_get_Inr)
    ultimately show "(index c' - ?i = (if uint (chunk ! nat ?i) = 255 then 5 else 1) + int (length bs))
         \<and> index c' \<le> int (length chunk)"
      using True c' hd_lb by simp
  next
    case False
    with assms lb
    have body: "chunk_get chunk (?i + 1) (?i + 1 + uint (hd lb)) = Inr bs"
      and c': "c' = c\<lparr>index := ?i + 1 + uint (hd lb)\<rparr>"
      by (auto simp: cursor_string_def Let_def split: sum.splits)
    have "int (length bs) = uint (hd lb)"
      using chunk_get_length [OF body] by simp
    moreover have "index c' \<le> int (length chunk)"
      using body c' by (simp add: chunk_get_Inr)
    ultimately show "(index c' - ?i = (if uint (chunk ! nat ?i) = 255 then 5 else 1) + int (length bs))
         \<and> index c' \<le> int (length chunk)"
      using False c' hd_lb by simp
  qed
qed

lemma frombuffer_i4_take_drop:
  assumes "i + 4 * n \<le> length chunk"
  shows "frombuffer_i4 (take (4 * n) (drop i chunk)) =
           map (\<lambda>k. be_sint32 (take 4 (drop (i + 4 * k) chunk))) [0 ..< n]"
proof -
  have len: "length (take (4 * n) (drop i chunk)) = 4 * n"
    using assms by simp
  have "take 4 (drop (4 * k) (take (4 * n) (drop i chunk))) = take 4 (drop (i + 4 * k) chunk)"
    if "k < n" for k
  proof -
    have "4 * n - 4 * k \<ge> 4" using that by simp
    then show ?thesis by (simp add: drop_take min_def add.commute)
  qed
  then show ?thesis
    unfolding frombuffer_i4_def len by simp
qed

lemma cursor_array_nonneg:
  assumes "0 \<le> n" and "0 \<le> index c" and "index c + 4 * n \<le> int (length chunk)"
  shows "cursor_array chunk n trefarray_dtype c =
           (Inr (map (\<lambda>k. be_sint32 (take 4 (drop (nat (index c) + 4 * k) chunk))) [0 ..< nat n]),
            c\<lparr>index := index c + 4 * n\<rparr>)"
proof -
  have "nat (index c) + 4 * nat n \<le> length chunk"
    using assms by linarith
  from frombuffer_i4_take_drop [OF this]
  have "frombuffer_i4 (take (nat (4 * n)) (drop (nat (index c)) chunk)) =
          map (\<lambda>k. be_sint32 (take 4 (drop (nat (index c) + 4 * k) chunk))) [0 ..< nat n]"
    using assms(1) by (simp add: nat_mult_distrib)
  then show ?thesis
    using assms
    by (simp add: cursor_array_def Let_def trefarray_dtype_def chunk_get_def mult.commute)
qed

text \<open>
  Claim C1.  A valid TRefArray stream is one on which, after the 10 skipped bytes, the
  name is read (ending at \<open>c2\<close>), then the size \<open>n\<close> (ending at \<open>c3\<close>), with \<open>n\<close> not
  negative and the 6 reserved bytes and the \<open>4 * n\<close> bytes of the references inside the
  chunk.  On every such stream the decoder, with \<open>memberwise = False\<close>, succeeds; the
  decoded name and size are the ones read; \<open>refs\<close> are the \<open>n\<close> big-endian signed
  4-byte integers that follow the reserved bytes, so \<open>len(refs) = size\<close> (and the empty
  sequence for \<open>size = 0\<close>); and the bytes consumed are 20, plus the bytes of the name
  field, plus \<open>4 * size\<close>.  The bytes of the name field are those the length-prefixed
  string occupies in the stream: its length prefix (one byte, or five when the first is
  255) and its characters.
\<close>

theorem Model_TRefArray_read_members_valid:
  assumes name: "cursor_string chunk (cursor_skip 10 c) = (Inr name, c2)"
      and size: "cursor_field chunk trefarray_format1 c2 = (Inr n, c3)"
      and nonneg: "0 \<le> n"
      and avail: "index c3 + 6 + 4 * n \<le> int (length chunk)"
  shows "\<exists>a c'. fst (Model_TRefArray_read_members context False chunk c) = Inr a
           \<and> fst (snd (Model_TRefArray_read_members context False chunk c)) = c'
           \<and> fName a = name \<and> fSize a = n
           \<and> n = be_sint32 (take 4 (drop (nat (index c2)) chunk))
           \<and> int (length (Model_TRefArray_refs a)) = fSize a
           \<and> Model_TRefArray_refs a =
               map (\<lambda>k. be_sint32 (take 4 (drop (nat (index c3 + 6) + 4 * k) chunk))) [0 ..< nat n]
           \<and> index c' - index c = 20 + (index c2 - (index c + 10)) + 4 * fSize a
           \<and> index c2 - (index c + 10) =
               (if uint (chunk ! nat (index c + 10)) = 255 then 5 else 1) + int (length name)"
proof -
  let ?c4 = "cursor_skip 6 c3"
  let ?d = "map (\<lambda>k. be_sint32 (take 4 (drop (nat (index c3 + 6) + 4 * k) chunk))) [0 ..< nat n]"
  let ?a = "\<lparr>fName = name, fSize = n, data = ?d\<rparr>"
  let ?c' = "?c4\<lparr>index := index ?c4 + 4 * n\<rparr>"
  have i1: "index (cursor_skip 10 c) = index c + 10"
    by (simp add: cursor_skip_def)
  note s = cursor_string_Inr [OF name, unfolded i1]
  note f = cursor_field_trefarray_format1_Inr [OF size]
  have i4: "index ?c4 = index c3 + 6"
    by (simp add: cursor_skip_def)
  have "0 \<le> index ?c4" and "index ?c4 + 4 * n \<le> int (length chunk)"
    using f(1,2) avail by (simp_all add: i4)
  from cursor_array_nonneg [OF nonneg this]
  have arr: "cursor_array chunk n trefarray_dtype ?c4 = (Inr ?d, ?c')"
    by (simp add: i4)
  have run: "Model_TRefArray_read_members context False chunk c =
               (Inr ?a, ?c', case forth context of
                               Some forth_obj \<Rightarrow> context\<lparr>forth := Some (traverse_aform forth_obj)\<rparr>
                             | None \<Rightarrow> context)"
    by (simp add: Model_TRefArray_read_members_def Let_def name size arr)
  have "index ?c' - index c = 20 + (index c2 - (index c + 10)) + 4 * n"
    using f(2) by (simp add: i4)
  moreover have "int (length ?d) = n"
    using nonneg by simp
  ultimately show ?thesis
    using s(2) f(4) by (simp add: run Model_TRefArray_refs_def)
qed

theorem Model_TRefArray_read_members_valid_witness:
  "(\<exists>a c'. fst (Model_TRefArray_read_members native_context False trefarray_example \<lparr>index = 0\<rparr>) = Inr a
      \<and> fst (snd (Model_TRefArray_read_members native_context False trefarray_example \<lparr>index = 0\<rparr>)) = c'
      \<and> fName a = [97, 98] \<and> fSize a = 3 \<and> Model_TRefArray_refs a = [5, - 2, 100000]
      \<and> int (length (Model_TRefArray_refs a)) = 3 \<and> index c' = 20 + 3 + 4 * 3) \<and>
   (\<exists>a c'. fst (Model_TRefArray_read_members native_context False trefarray_empty_example \<lparr>index = 0\<rparr>) = Inr a
      \<and> fst (snd (Model_TRefArray_read_members native_context False trefarray_empty_example \<lparr>index = 0\<rparr>)) = c'
      \<and> fName a = [] \<and> fSize a = 0 \<and> Model_TRefArray_refs a = []
      \<and> index c' = 20 + 1 + 4 * 0)"
proof
  let ?c = "\<lparr>index = 0\<rparr>"
  have name: "cursor_string trefarray_example (cursor_skip 10 ?c) = (Inr [97, 98], \<lparr>index = 13\<rparr>)"
    by code_simp
  have size: "cursor_field trefarray_example trefarray_format1 \<lparr>index = 13\<rparr> = (Inr 3, \<lparr>index = 17\<rparr>)"
    by code_simp
  have avail: "index \<lparr>index = 17\<rparr> + 6 + 4 * 3 \<le> int (length trefarray_example)"
    by (simp add: trefarray_example_def)
  have refs: "map (\<lambda>k. be_sint32 (take 4 (drop (nat (index \<lparr>index = 17\<rparr> + 6) + 4 * k) trefarray_example)))
                [0 ..< nat 3] = [5, - 2, 100000]"
    by code_simp
  from Model_TRefArray_read_members_valid [OF name size _ avail, of native_context]
  show "\<exists>a c'. fst (Model_TRefArray_read_members native_context False trefarray_example ?c) = Inr a
      \<and> fst (snd (Model_TRefArray_read_members native_context False trefarray_example ?c)) = c'
      \<and> fName a = [97, 98] \<and> fSize a = 3 \<and> Model_TRefArray_refs a = [5, - 2, 100000]
      \<and> int (length (Model_TRefArray_refs a)) = 3 \<and> index c' = 20 + 3 + 4 * 3"
    unfolding refs by auto
next
  let ?c = "\<lparr>index = 0\<rparr>"
  have name: "cursor_string trefarray_empty_example (cursor_skip 10 ?c) = (Inr [], \<lparr>index = 11\<rparr>)"
    by code_simp
  have size: "cursor_field trefarray_empty_example trefarray_format1 \<lparr>index = 11\<rparr> = (Inr 0, \<lparr>index = 15\<rparr>)"
    by code_simp
  have avail: "index \<lparr>index = 15\<rparr> + 6 + 4 * 0 \<le> int (length trefarray_empty_example)"
    by (simp add: trefarray_empty_example_def)
  from Model_TRefArray_read_members_valid [OF name size _ avail, of native_context]
  show "\<exists>a c'. fst (Model_TRefArray_read_members native_context False trefarray_empty_example ?c) = Inr a
      \<and> fst (snd (Model_TRefArray_read_members native_context False trefarray_empty_example ?c)) = c'
      \<and> fName a = [] \<and> fSize a = 0 \<and> Model_TRefArray_refs a = []
      \<and> index c' = 20 + 1 + 4 * 0"
    by auto
qed

subsection \<open>A negative size\<close>

text \<open>Every failure of a read is \<open>TruncatedInput\<close>.\<close>

lemma cursor_field_error:
  "fst (cursor_field chunk fmt c) = Inl e \<Longrightarrow> e = TruncatedInput"
  by (auto simp: cursor_field_def Let_def chunk_get_def split: if_splits)

lemma cursor_array_error:
  "fst (cursor_array chunk n dt c) = Inl e \<Longrightarrow> e = TruncatedInput"
  by (auto simp: cursor_array_def Let_def chunk_get_def split: if_splits)

lemma cursor_string_error:
  "fst (cursor_string chunk c) = Inl e \<Longrightarrow> e = TruncatedInput"
  by (auto simp: cursor_string_def Let_def chunk_get_def split: if_splits sum.splits)

lemma Model_TRefArray_read_members_errors:
  assumes "fst (Model_TRefArray_read_members context is_memberwise chunk c) = Inl e"
  shows "e = UnsupportedSerializationMode \<or> e = TruncatedInput"
proof (cases is_memberwise)
  case True
  with assms show ?thesis
    by (simp add: Model_TRefArray_read_members_def Let_def)
next
  case False
  obtain r1 c1 where s: "cursor_string chunk (cursor_skip 10 c) = (r1, c1)"
    by (cases "cursor_string chunk (cursor_skip 10 c)")
  show ?thesis
  proof (cases r1)
    case (Inl e1)
    with assms False s cursor_string_error [of chunk "cursor_skip 10 c" e1] show ?thesis
      by (simp add: Model_TRefArray_read_members_def Let_def)
  next
    case name: (Inr name)
    obtain r2 c2 where f: "cursor_field chunk trefarray_format1 c1 = (r2, c2)"
      by (cases "cursor_field chunk trefarray_format1 c1")
    show ?thesis
    proof (cases r2)
      case (Inl e2)
      with assms False s name f cursor_field_error [of chunk trefarray_format1 c1 e2] show ?thesis
        by (simp add: Model_TRefArray_read_members_def Let_def)
    next
      case n: (Inr n)
      obtain r3 c3 where a: "cursor_array chunk n trefarray_dtype (cursor_skip 6 c2) = (r3, c3)"
        by (cases "cursor_array chunk n trefarray_dtype (cursor_skip 6 c2)")
      show ?thesis
      proof (cases r3)
        case (Inl e3)
        with assms False s name f n a
          cursor_array_error [of chunk n trefarray_dtype "cursor_skip 6 c2" e3] show ?thesis
          by (simp add: Model_TRefArray_read_members_def Let_def)
      next
        case (Inr d)
        with assms False s name f n a show ?thesis
          by (simp add: Model_TRefArray_read_members_def Let_def)
      qed
    qed
  qed
qed

text \<open>
  Claim C4, as amended.  The decoder makes no check of the size it has decoded.  When
  the size \<open>n\<close> is negative it is passed on as it is: the outcome of the decoder is the
  outcome of the array read of \<open>n\<close> items after the 6 skipped bytes, with its cursor, and
  the decoder does not fail with \<open>CorruptRecord\<close>.
\<close>

theorem Model_TRefArray_read_members_negative_size:
  assumes name: "cursor_string chunk (cursor_skip 10 c) = (Inr name, c2)"
      and size: "cursor_field chunk trefarray_format1 c2 = (Inr n, c3)"
      and neg: "n < 0"
  shows "fst (Model_TRefArray_read_members context False chunk c) =
           (case fst (cursor_array chunk n trefarray_dtype (cursor_skip 6 c3)) of
              Inl e \<Rightarrow> Inl e
            | Inr d \<Rightarrow> Inr \<lparr>fName = name, fSize = n, data = d\<rparr>)
         \<and> fst (snd (Model_TRefArray_read_members context False chunk c)) =
             snd (cursor_array chunk n trefarray_dtype (cursor_skip 6 c3))
         \<and> fst (Model_TRefArray_read_members context False chunk c) \<noteq> Inl CorruptRecord"
proof -
  have "fst (Model_TRefArray_read_members context False chunk c) \<noteq> Inl CorruptRecord"
    using Model_TRefArray_read_members_errors [of "context" False chunk c CorruptRecord] by auto
  then show ?thesis
    by (simp add: Model_TRefArray_read_members_def Let_def name size
        split: prod.splits sum.splits)
qed

theorem Model_TRefArray_read_members_negative_size_witness:
  "fst (Model_TRefArray_read_members native_context False trefarray_negative_example \<lparr>index = 0\<rparr>)
     = Inr \<lparr>fName = [], fSize = - 1, data = []\<rparr>
   \<and> fst (snd (Model_TRefArray_read_members native_context False trefarray_negative_example \<lparr>index = 0\<rparr>))
     = \<lparr>index = 17\<rparr>
   \<and> fst (Model_TRefArray_read_members native_context False trefarray_negative_example \<lparr>index = 0\<rparr>)
       \<noteq> Inl CorruptRecord"
proof -
  have name: "cursor_string trefarray_negative_example (cursor_skip 10 \<lparr>index = 0\<rparr>)
                = (Inr [], \<lparr>index = 11\<rparr>)"
    by code_simp
  have size: "cursor_field trefarray_negative_example trefarray_format1 \<lparr>index = 11\<rparr>
                = (Inr (- 1), \<lparr>index = 15\<rparr>)"
    by code_simp
  have arr: "cursor_array trefarray_negative_example (- 1) trefarray_dtype (cursor_skip 6 \<lparr>index = 15\<rparr>)
               = (Inr [], \<lparr>index = 17\<rparr>)"
    by code_simp
  from Model_TRefArray_read_members_negative_size [OF name size, of native_context]
  show ?thesis
    by (simp add: arr)
qed

text \<open>
  The claim as stated fails: the record with an empty name and the size bytes
  \<open>FF FF FF FF\<close> decodes to size -1, and the decoder returns a TRefArray with no
  references, the cursor moved back by four bytes.
\<close>

theorem Model_TRefArray_read_members_negative_size_counterexample:
  "cursor_field trefarray_negative_example trefarray_format1 \<lparr>index = 11\<rparr>
     = (Inr (- 1), \<lparr>index = 15\<rparr>) \<and>
   Model_TRefArray_read_members native_context False trefarray_negative_example \<lparr>index = 0\<rparr>
     = (Inr \<lparr>fName = [], fSize = - 1, data = []\<rparr>, \<lparr>index = 17\<rparr>, native_context)"
  by code_simp

subsection \<open>The memberwise variant\<close>

text \<open>
  Claim C3.  With \<open>memberwise = True\<close> both decoders fail with
  \<open>UnsupportedSerializationMode\<close> (the source's \<open>NotImplementedError\<close>), for every chunk
  and every cursor, and the cursor they leave is the cursor they were given: no byte
  has been consumed.
\<close>

theorem memberwise_rejected:
  "Model_TRef_read_members True chunk c = (Inl UnsupportedSerializationMode, c) \<and>
   fst (Model_TRefArray_read_members context True chunk c') = Inl UnsupportedSerializationMode \<and>
   fst (snd (Model_TRefArray_read_members context True chunk c')) = c'"
  by (simp add: Model_TRef_read_members_def Model_TRefArray_read_members_def Let_def)


subsection \<open>The TRefArray as a sequence\<close>

text \<open>
  Claim C10.  A TRefArray is a sequence view of its \<open>refs\<close>: its length is the length
  of \<open>refs\<close>, indexing it is indexing \<open>refs\<close>, and for every index \<open>i\<close> with
  \<open>0 \<le> i < len(a)\<close> the item \<open>a[i]\<close> is \<open>a.refs[i]\<close>.  This holds of every TRefArray
  value, so of every decoded one.  The class defines no way to assign to an item.
\<close>

theorem Model_TRefArray_sequence_view:
  "Model_TRefArray_len a = int (length (Model_TRefArray_refs a)) \<and>
   Model_TRefArray_getitem a i = ndarray_getitem (Model_TRefArray_refs a) i \<and>
   (0 \<le> i \<and> i < Model_TRefArray_len a \<longrightarrow>
      Model_TRefArray_getitem a i = Some (Model_TRefArray_refs a ! nat i))"
  by (simp add: Model_TRefArray_len_def Model_TRefArray_refs_def Model_TRefArray_getitem_def
      ndarray_getitem_def)

theorem Model_TRefArray_sequence_view_witness:
  "fst (Model_TRefArray_read_members native_context False trefarray_example \<lparr>index = 0\<rparr>)
     = Inr \<lparr>fName = [97, 98], fSize = 3, data = [5, - 2, 100000]\<rparr> \<and>
   Model_TRefArray_len \<lparr>fName = [97, 98], fSize = 3, data = [5, - 2, 100000]\<rparr> = 3 \<and>
   (0::int) \<le> 1 \<and> (1::int) < 3 \<and>
   Model_TRefArray_getitem \<lparr>fName = [97, 98], fSize = 3, data = [5, - 2, 100000]\<rparr> 1 = Some (- 2) \<and>
   Model_TRefArray_refs \<lparr>fName = [97, 98], fSize = 3, data = [5, - 2, 100000]\<rparr> ! nat 1 = - 2"
proof -
  let ?a = "\<lparr>fName = [97, 98], fSize = 3, data = [5, - 2, 100000]\<rparr>"
  have dec: "fst (Model_TRefArray_read_members native_context False trefarray_example \<lparr>index = 0\<rparr>)
               = Inr ?a"
    by code_simp
  have refs: "Model_TRefArray_refs ?a = [5, - 2, 100000]"
    by (simp add: Model_TRefArray_refs_def)
  note view = Model_TRefArray_sequence_view [of ?a 1]
  have len: "Model_TRefArray_len ?a = 3"
    using view [THEN conjunct1] by (simp add: refs)
  have "Model_TRefArray_getitem ?a 1 = Some (Model_TRefArray_refs ?a ! nat 1)"
    by (rule view [THEN conjunct2, THEN conjunct2, THEN mp]) (simp add: len)
  then show ?thesis
    by (simp add: dec len refs)
qed

subsection \<open>The strided schema of a TRef\<close>

text \<open>
  Claim C7.  The strided interpretation of a TRef has exactly the members \<open>@pidf\<close>
  (unsigned, 2 bytes), \<open>ref\<close> (unsigned, 4 bytes), \<open>@other1\<close> (unsigned, 2 bytes) and
  \<open>@other2\<close> (unsigned, 4 bytes), in this order and all big-endian.  Packed one after
  the other they start at the offsets 0, 2, 6 and 8 and add up to the 12 bytes of the
  record format \<open>_tref_format1\<close>, in which the reference number also stands at offset 2:
  every byte of the record belongs to one member.
\<close>

theorem Model_TRef_strided_interpretation_members:
  "so_members (Model_TRef_strided_interpretation c header tobject_hdr original) =
     [(''@pidf'', dtype_be_u2), (''ref'', dtype_be_u4),
      (''@other1'', dtype_be_u2), (''@other2'', dtype_be_u4)]
   \<and> map (order \<circ> snd) (so_members (Model_TRef_strided_interpretation c header tobject_hdr original))
       = [BigEndian, BigEndian, BigEndian, BigEndian]
   \<and> map (\<lambda>m. (dkind (snd m), itemsize (snd m)))
        (so_members (Model_TRef_strided_interpretation c header tobject_hdr original))
       = [(UnsignedInt, 2), (UnsignedInt, 4), (UnsignedInt, 2), (UnsignedInt, 4)]
   \<and> member_offsets 0 (so_members (Model_TRef_strided_interpretation c header tobject_hdr original))
       = [(''@pidf'', 0), (''ref'', 2), (''@other1'', 6), (''@other2'', 8)]
   \<and> sum_list (map (itemsize \<circ> snd)
        (so_members (Model_TRef_strided_interpretation c header tobject_hdr original)))
       = calcsize tref_format1
   \<and> calcsize tref_format1 = 12"
  by (simp add: Model_TRef_strided_interpretation_def dtype_be_u2_def dtype_be_u4_def
      calcsize_tref_format1)

subsection \<open>The native schema of a TRef\<close>

text \<open>
  Claim C9, as amended.  \<open>Model_TRef.awkward_form\<close> has no bytecode branch.  When the
  context's \<open>tobject_header\<close> flag is set, the schema is a record \<open>TRef\<close> with the four
  scalar fields \<open>@pidf\<close> (unsigned 16 bit), \<open>ref\<close> (unsigned 32 bit), \<open>@other1\<close>
  (unsigned 16 bit) and \<open>@other2\<close> (unsigned 32 bit), in this order; when it is not
  set, the record has no fields.  Either way the context is left as it was.
\<close>

theorem Model_TRef_awkward_form_guarded:
  "Model_TRef_awkward_form c context =
     (RecordForm
        (if tobject_header context
         then [(''@pidf'', NumpyForm UnsignedInt 2 [] None),
               (''ref'', NumpyForm UnsignedInt 4 [] None),
               (''@other1'', NumpyForm UnsignedInt 2 [] None),
               (''@other2'', NumpyForm UnsignedInt 4 [] None)]
         else [])
        [(''__record__'', PStr ''TRef'')] None,
      context)"
  by (simp add: Model_TRef_awkward_form_def awkward_form_def dtype_u2_def dtype_u4_def)

text \<open>
  The claim as stated fails in a context whose \<open>tobject_header\<close> flag is off: the
  record built there has no fields.
\<close>

theorem Model_TRef_awkward_form_counterexample:
  "tobject_header (native_context\<lparr>tobject_header := False\<rparr>) = False \<and>
   fst (Model_TRef_awkward_form ''Model_TRef'' (native_context\<lparr>tobject_header := False\<rparr>))
     = RecordForm [] [(''__record__'', PStr ''TRef'')] None \<and>
   field_names (fst (Model_TRef_awkward_form ''Model_TRef'' (native_context\<lparr>tobject_header := False\<rparr>)))
     \<noteq> [''@pidf'', ''ref'', ''@other1'', ''@other2'']"
  by (simp add: Model_TRef_awkward_form_def native_context_def)

subsection \<open>Node keys are injective\<close>

lemma digit_value_digit_char: "d < 10 \<Longrightarrow> digit_value (digit_char d) = d"
proof -
  have "\<forall>d \<in> set [0 ..< 10]. digit_value (digit_char d) = d"
    by code_simp
  then show "d < 10 \<Longrightarrow> digit_value (digit_char d) = d"
    by simp
qed

lemma digit_char_not_minus: "d < 10 \<Longrightarrow> digit_char d \<noteq> CHR ''-''"
proof -
  have "\<forall>d \<in> set [0 ..< 10]. digit_char d \<noteq> CHR ''-''"
    by code_simp
  then show "d < 10 \<Longrightarrow> digit_char d \<noteq> CHR ''-''"
    by simp
qed

lemma nat_of_str_str_nat: "nat_of_str (str_nat n) = n"
proof (induction n rule: str_nat.induct)
  case (1 n)
  show ?case
  proof (cases "n < 10")
    case True
    then show ?thesis
      by (subst str_nat.simps) (simp add: nat_of_str_def digit_value_digit_char)
  next
    case False
    with "1.IH" have "nat_of_str (str_nat (n div 10)) = n div 10"
      by simp
    with False show ?thesis
      by (subst str_nat.simps) (simp add: nat_of_str_def digit_value_digit_char)
  qed
qed

lemma str_nat_inject: "str_nat m = str_nat n \<Longrightarrow> m = n"
  by (metis nat_of_str_str_nat)

lemma str_nat_no_minus: "CHR ''-'' \<notin> set (str_nat n)"
proof (induction n rule: str_nat.induct)
  case (1 n)
  show ?case
  proof (cases "n < 10")
    case True
    then show ?thesis
      using digit_char_not_minus [of n] by (subst str_nat.simps) auto
  next
    case False
    with "1.IH" have "CHR ''-'' \<notin> set (str_nat (n div 10))"
      by simp
    with False show ?thesis
      using digit_char_not_minus [of "n mod 10"] by (subst str_nat.simps) auto
  qed
qed

lemma str_int_inject: "str_int i = str_int j \<Longrightarrow> i = j"
proof -
  assume eq: "str_int i = str_int j"
  have neg_pos: False if "a < 0" "0 \<le> b" "str_int a = str_int b" for a b
  proof -
    from that have "CHR ''-'' # str_nat (nat (- a)) = str_nat (nat b)"
      by (simp add: str_int_def)
    then have "CHR ''-'' \<in> set (str_nat (nat b))"
      by (metis list.set_intros(1))
    then show False
      by (simp add: str_nat_no_minus)
  qed
  show ?thesis
  proof (cases "i < 0"; cases "j < 0")
    assume "i < 0" "j < 0"
    with eq have "nat (- i) = nat (- j)"
      by (simp add: str_int_def str_nat_inject)
    with \<open>i < 0\<close> \<open>j < 0\<close> show ?thesis by simp
  next
    assume "i < 0" "\<not> j < 0"
    with neg_pos [of i j] eq show ?thesis by simp
  next
    assume "\<not> i < 0" "j < 0"
    with neg_pos [of j i] eq show ?thesis by simp
  next
    assume "\<not> i < 0" "\<not> j < 0"
    with eq have "nat i = nat j"
      by (simp add: str_int_def str_nat_inject)
    with \<open>\<not> i < 0\<close> \<open>\<not> j < 0\<close> show ?thesis by simp
  qed
qed

lemma node_eq_iff: "node i = node j \<longleftrightarrow> i = j"
  by (auto simp: node_def dest: str_int_inject)

subsection \<open>The schema of a TRefArray in both modes\<close>

text \<open>The two branches of the builder, evaluated.\<close>

lemma Model_TRefArray_awkward_form_forth:
  "Model_TRefArray_awkward_form c (context\<lparr>forth := Some f\<rparr>) =
     (RecordForm
        [(''fName'',
          ListOffsetForm (index_format context)
            (NumpyForm UnsignedInt 1 [(''__array__'', PStr ''char'')]
               (Some (node (get_last_key f + 3))))
            [(''__array__'', PStr ''string''),
             (''uproot'', PDict [(''as'', PStr ''string''), (''header'', PBool False),
                                 (''length_bytes'', PStr ''1-5'')])]
            (Some (node (get_last_key f + 2)))),
         (''fSize'', NumpyForm SignedInt 4 [] (Some (node (get_last_key f + 4)))),
         (''refs'',
          ListOffsetForm (index_format context)
            (NumpyForm SignedInt 4 [] (Some (node (get_last_key f + 6)))) []
            (Some (node (get_last_key f + 5))))]
        [(''__record__'', PStr ''TRefArray'')]
        (Some (node (get_last_key f + 1))),
      context\<lparr>forth := Some (register_post c (register_pre c
                   (init_keys c (get_last_key f + 1) (get_last_key f + 6)
                      (f\<lparr>forth_code := dict_set c None (forth_code f)\<rparr>)))),
              prev_key := None\<rparr>)"
  by (simp add: Model_TRefArray_awkward_form_def Let_def awkward_form_forth_def dtype_i4_def
      get_last_key_def)

lemma Model_TRefArray_awkward_form_native:
  "Model_TRefArray_awkward_form c (context\<lparr>forth := None\<rparr>) =
     (RecordForm
        [(''fName'',
          ListOffsetForm (index_format context)
            (NumpyForm UnsignedInt 1 [(''__array__'', PStr ''char'')] None)
            [(''__array__'', PStr ''string''),
             (''uproot'', PDict [(''as'', PStr ''string''), (''header'', PBool False),
                                 (''length_bytes'', PStr ''1-5'')])]
            None),
         (''fSize'', NumpyForm SignedInt 4 [] None),
         (''refs'',
          ListOffsetForm (index_format context) (NumpyForm SignedInt 4 [] None) [] None)]
        [(''__record__'', PStr ''TRefArray'')] None,
      context\<lparr>forth := None\<rparr>)"
  by (simp add: Model_TRefArray_awkward_form_def Let_def awkward_form_def AsString_awkward_form_def
      dtype_i4_def)

lemma get_last_key_after:
  "get_last_key (register_post c (register_pre c (init_keys c start stop f))) = stop"
  by (simp add: get_last_key_def register_post_def register_pre_def init_keys_def)


lemma form_keys_forth:
  "form_keys (fst (Model_TRefArray_awkward_form c (context\<lparr>forth := Some f\<rparr>))) =
     map (\<lambda>k. node (get_last_key f + k)) [1, 2, 3, 4, 5, 6]"
  by (simp add: Model_TRefArray_awkward_form_forth)

lemma forth_after:
  "forth (snd (Model_TRefArray_awkward_form c (context\<lparr>forth := Some f\<rparr>))) =
     Some (register_post c (register_pre c
       (init_keys c (get_last_key f + 1) (get_last_key f + 6)
          (f\<lparr>forth_code := dict_set c None (forth_code f)\<rparr>))))"
  by (simp add: Model_TRefArray_awkward_form_forth)

text \<open>
  Claim C5.  In bytecode mode, with \<open>key\<close> the generator's last key, the schema of a
  TRefArray carries the six node keys \<open>key + 1 .. key + 6\<close> and no other: \<open>key + 1\<close> on
  the record, \<open>key + 2\<close> and \<open>key + 3\<close> on the list and the content of the name,
  \<open>key + 4\<close> on the size, \<open>key + 5\<close> and \<open>key + 6\<close> on the list and the content of the
  references.  The build leaves the counter at \<open>key + 6\<close>, so a second TRefArray built in
  the context the first build returns gets the keys \<open>key + 7 .. key + 12\<close>: its base key
  is the first one's plus 6, and the twelve keys are pairwise different.
\<close>

theorem Model_TRefArray_awkward_form_node_keys:
  "fst (Model_TRefArray_awkward_form c (context\<lparr>forth := Some f\<rparr>)) =
     RecordForm
       [(''fName'',
         ListOffsetForm (index_format context)
           (NumpyForm UnsignedInt 1 [(''__array__'', PStr ''char'')]
              (Some (node (get_last_key f + 3))))
           [(''__array__'', PStr ''string''),
            (''uproot'', PDict [(''as'', PStr ''string''), (''header'', PBool False),
                                (''length_bytes'', PStr ''1-5'')])]
           (Some (node (get_last_key f + 2)))),
        (''fSize'', NumpyForm SignedInt 4 [] (Some (node (get_last_key f + 4)))),
        (''refs'',
         ListOffsetForm (index_format context)
           (NumpyForm SignedInt 4 [] (Some (node (get_last_key f + 6)))) []
           (Some (node (get_last_key f + 5))))]
       [(''__record__'', PStr ''TRefArray'')]
       (Some (node (get_last_key f + 1)))
   \<and> form_keys (fst (Model_TRefArray_awkward_form c (context\<lparr>forth := Some f\<rparr>))) =
       map (\<lambda>k. node (get_last_key f + k)) [1, 2, 3, 4, 5, 6]
   \<and> map_option get_last_key
        (forth (snd (Model_TRefArray_awkward_form c (context\<lparr>forth := Some f\<rparr>)))) =
       Some (get_last_key f + 6)
   \<and> form_keys (fst (Model_TRefArray_awkward_form c'
        (snd (Model_TRefArray_awkward_form c (context\<lparr>forth := Some f\<rparr>))))) =
       map (\<lambda>k. node (get_last_key f + 6 + k)) [1, 2, 3, 4, 5, 6]
   \<and> distinct
       (form_keys (fst (Model_TRefArray_awkward_form c (context\<lparr>forth := Some f\<rparr>))) @
        form_keys (fst (Model_TRefArray_awkward_form c'
          (snd (Model_TRefArray_awkward_form c (context\<lparr>forth := Some f\<rparr>))))))"
proof -
  let ?ctx = "context\<lparr>forth := Some f\<rparr>"
  let ?f' = "register_post c (register_pre c
       (init_keys c (get_last_key f + 1) (get_last_key f + 6)
          (f\<lparr>forth_code := dict_set c None (forth_code f)\<rparr>)))"
  let ?ctx' = "snd (Model_TRefArray_awkward_form c ?ctx)"
  have last: "get_last_key ?f' = get_last_key f + 6"
    by (rule get_last_key_after)
  have ctx': "?ctx' = ?ctx'\<lparr>forth := Some ?f'\<rparr>"
    by (simp add: Model_TRefArray_awkward_form_forth)
  have keys1: "form_keys (fst (Model_TRefArray_awkward_form c ?ctx)) =
                 map (\<lambda>k. node (get_last_key f + k)) [1, 2, 3, 4, 5, 6]"
    by (rule form_keys_forth)
  have "form_keys (fst (Model_TRefArray_awkward_form c' (?ctx'\<lparr>forth := Some ?f'\<rparr>))) =
          map (\<lambda>k. node (get_last_key ?f' + k)) [1, 2, 3, 4, 5, 6]"
    by (rule form_keys_forth)
  then have keys2: "form_keys (fst (Model_TRefArray_awkward_form c' ?ctx')) =
                      map (\<lambda>k. node (get_last_key f + 6 + k)) [1, 2, 3, 4, 5, 6]"
    using ctx' last by simp
  have dist: "distinct (map (\<lambda>k. node (get_last_key f + k)) [1, 2, 3, 4, 5, 6] @
                        map (\<lambda>k. node (get_last_key f + 6 + k)) [1, 2, 3, 4, 5, 6])"
    by (simp add: node_eq_iff)
  have counter: "map_option get_last_key (forth ?ctx') = Some (get_last_key f + 6)"
    by (simp add: forth_after last)
  show ?thesis
    unfolding keys1 keys2
    using dist counter by (simp add: Model_TRefArray_awkward_form_forth)
qed

lemma Model_TRefArray_awkward_form_example:
  "form_keys (fst (Model_TRefArray_awkward_form ''Model_TRefArray''
     (native_context\<lparr>forth := Some forth_example\<rparr>))) =
     [''node1'', ''node2'', ''node3'', ''node4'', ''node5'', ''node6'']"
  by code_simp

text \<open>
  Claim C6.  For the same index format, the schema of the bytecode build with its form
  keys removed is the schema of the native build: the fields \<open>fName\<close>, \<open>fSize\<close> and
  \<open>refs\<close> (the name, the size and the references) in this order, with equal form trees.
  The native schema has no form key; the extraction program is kept in the generator,
  not in the schema.
\<close>

theorem Model_TRefArray_awkward_form_modes_agree:
  "strip_form_keys (fst (Model_TRefArray_awkward_form c (context\<lparr>forth := Some f\<rparr>))) =
     fst (Model_TRefArray_awkward_form c (context\<lparr>forth := None\<rparr>))
   \<and> field_names (fst (Model_TRefArray_awkward_form c (context\<lparr>forth := Some f\<rparr>))) =
       [''fName'', ''fSize'', ''refs'']
   \<and> field_names (fst (Model_TRefArray_awkward_form c (context\<lparr>forth := None\<rparr>))) =
       [''fName'', ''fSize'', ''refs'']
   \<and> form_keys (fst (Model_TRefArray_awkward_form c (context\<lparr>forth := None\<rparr>))) = []"
  by (simp add: Model_TRefArray_awkward_form_forth Model_TRefArray_awkward_form_native)

text \<open>
  Claim C8, as amended.  In bytecode mode the builder deletes \<open>prev-key\<close> from the
  context at the end of the build: whatever the context held before, it has no
  \<open>prev-key\<close> afterwards.  The caller finds the state it had before the call exactly
  when it had no \<open>prev-key\<close> set.  The entries \<open>index_format\<close> and \<open>tobject_header\<close> are
  not touched.
\<close>

theorem Model_TRefArray_awkward_form_prev_key:
  "prev_key (snd (Model_TRefArray_awkward_form c (context\<lparr>forth := Some f\<rparr>))) = None
   \<and> (prev_key (snd (Model_TRefArray_awkward_form c (context\<lparr>forth := Some f\<rparr>))) =
        prev_key (context\<lparr>forth := Some f\<rparr>)) = (prev_key context = None)
   \<and> index_format (snd (Model_TRefArray_awkward_form c (context\<lparr>forth := Some f\<rparr>))) =
       index_format context
   \<and> tobject_header (snd (Model_TRefArray_awkward_form c (context\<lparr>forth := Some f\<rparr>))) =
       tobject_header context"
  by (auto simp: Model_TRefArray_awkward_form_forth)

text \<open>
  The claim as stated fails for a caller that has \<open>prev-key\<close> set when it calls the
  builder: the entry is gone after the call, not restored.
\<close>

theorem Model_TRefArray_awkward_form_prev_key_counterexample:
  "prev_key (native_context\<lparr>forth := Some forth_example, prev_key := Some ''node7''\<rparr>)
     = Some ''node7''
   \<and> prev_key (snd (Model_TRefArray_awkward_form ''Model_TRefArray''
        (native_context\<lparr>forth := Some forth_example, prev_key := Some ''node7''\<rparr>))) = None
   \<and> prev_key (snd (Model_TRefArray_awkward_form ''Model_TRefArray''
        (native_context\<lparr>forth := Some forth_example, prev_key := Some ''node7''\<rparr>)))
      \<noteq> prev_key (native_context\<lparr>forth := Some forth_example, prev_key := Some ''node7''\<rparr>)"
  by (simp add: Model_TRefArray_awkward_form_def Let_def)

end
